theory Spec2Isabelle
  imports
    Main
    "HOL-Library.Word"
    "HOL-Library.Char_ord"
    "HOL-Library.List_Lexorder"
    "HOL-Library.Product_Lexorder"
    "HOL-Library.Sublist"
    "HOL-Library.Multiset"
begin

section \<open>The review table\<close>

text \<open>
  \<^verbatim>\<open>app.py\<close> reads one CSV file into a data frame and works on five of its columns.
  A row is a record of these five cells. Only \<^verbatim>\<open>reviewCreatedVersion\<close> is treated as
  nullable by the script (it is the one column \<^verbatim>\<open>dropna()\<close> is applied to); the
  other cells are always present. A missing version is \<open>None\<close>; comparing it with any
  string is false, as comparing NaN is in pandas.

  The \<^verbatim>\<open>at\<close> column holds text as read from the file and holds timestamps once
  \<^verbatim>\<open>pd.to_datetime\<close> has been assigned to it, so a cell of that column is one or the
  other. The score is a 64-bit floating-point number in the program; the script never
  computes with it and only passes it through to the box plot, so it is kept as its 64 bits.
\<close>

record timestamp =
  year :: int
  month :: nat
  day :: nat
  hour :: nat
  minute :: nat
  second :: nat

type_synonym date = "int \<times> nat \<times> nat"

datatype at_cell = AtText string | AtTime timestamp

record review =
  app_name :: string
  reviewCreatedVersion :: "string option"
  sentiment_label :: string
  sentiment_score :: "64 word"
  at :: at_cell

type_synonym table = "review list"

section \<open>The pandas operations the script uses\<close>

text \<open>\<^verbatim>\<open>Series.unique()\<close>: the distinct values in order of first appearance.\<close>

definition unique :: "'a list \<Rightarrow> 'a list" where
  "unique xs = rev (remdups (rev xs))"

text \<open>\<^verbatim>\<open>Series.dropna()\<close>: the present values, in order.\<close>

definition dropna :: "'a option list \<Rightarrow> 'a list" where
  "dropna xs = List.map_filter (\<lambda>x. x) xs"

section \<open>Sidebar filters (lines 28-37)\<close>

text \<open>\<^verbatim>\<open>app_names = df['app_name'].unique().tolist()\<close>\<close>

definition app_names :: "table \<Rightarrow> string list" where
  "app_names df = unique (map app_name df)"

text \<open>\<^verbatim>\<open>filtered_df = df[df['app_name'] == selected_app]\<close>\<close>

definition filter_app :: "table \<Rightarrow> string \<Rightarrow> table" where
  "filter_app df selected_app = filter (\<lambda>r. app_name r = selected_app) df"

text \<open>\<^verbatim>\<open>versions = sorted(filtered_df['reviewCreatedVersion'].dropna().unique().tolist())\<close>\<close>

definition versions :: "table \<Rightarrow> string list" where
  "versions filtered = sort (unique (dropna (map reviewCreatedVersion filtered)))"

text \<open>\<^verbatim>\<open>filtered_df[filtered_df['reviewCreatedVersion'] == selected_version]\<close>\<close>

definition filter_version :: "table \<Rightarrow> string \<Rightarrow> table" where
  "filter_version filtered selected_version =
     filter (\<lambda>r. reviewCreatedVersion r = Some selected_version) filtered"

text \<open>
  Lines 31-37 together: the app filter, then the version filter unless the sentinel
  \<^verbatim>\<open>"All"\<close> is selected.
\<close>

definition filtered_df :: "table \<Rightarrow> string \<Rightarrow> string \<Rightarrow> table" where
  "filtered_df df selected_app selected_version =
     (let filtered = filter_app df selected_app
      in if selected_version \<noteq> ''All''
         then filter_version filtered selected_version
         else filtered)"

section \<open>Question answering (lines 59-65)\<close>

text \<open>
  \<^verbatim>\<open>str.lower()\<close>. Strings are byte strings in UTF-8 here and only the ASCII capitals
  are mapped. The two patterns tested below consist of ASCII letters and a space, and no
  non-ASCII character is lowered by Python to a string with one of these letters followed
  by another pattern character, so the substring tests agree with Python's.
\<close>

definition lower_char :: "char \<Rightarrow> char" where
  "lower_char c =
     (let n = (of_char c :: nat) in if 65 \<le> n \<and> n \<le> 90 then char_of (n + 32) else c)"

definition lower :: "string \<Rightarrow> string" where
  "lower s = map lower_char s"

text \<open>\<^verbatim>\<open>str(count)\<close> inside the f-string: the decimal numeral of a row count.\<close>

definition digit_char :: "nat \<Rightarrow> char" where
  "digit_char d = char_of (48 + d)"

function str_nat :: "nat \<Rightarrow> string" where
  "str_nat n = (if n < 10 then [digit_char n] else str_nat (n div 10) @ [digit_char (n mod 10)])"
  by pat_completeness auto
termination
  by (relation "measure (\<lambda>n. n)") auto

declare str_nat.simps [simp del]

text \<open>
  \<^verbatim>\<open>df[(df['app_name'] == "Google Pay") & (df['sentiment_label'] == "negative")].shape[0]\<close>
\<close>

definition negative_count :: "table \<Rightarrow> nat" where
  "negative_count df =
     length (filter (\<lambda>r. app_name r = ''Google Pay'' \<and> sentiment_label r = ''negative'') df)"

definition not_recognized :: string where
  "not_recognized = ''Question not recognized. Try a different query.''"

text \<open>Lines 61-65: the text passed to \<^verbatim>\<open>st.markdown\<close> for a question.\<close>

definition answer :: "table \<Rightarrow> string \<Rightarrow> string" where
  "answer df question =
     (if sublist ''negative'' (lower question) \<and> sublist ''google pay'' (lower question)
      then '' **Google Pay has '' @ str_nat (negative_count df) @ '' negative reviews**.''
      else not_recognized)"

section \<open>Chart data preparation (lines 70-73, 118-119, 130)\<close>

text \<open>
  \<^verbatim>\<open>Series.value_counts()\<close>: one count per distinct value, most frequent first. Equal
  counts are kept here in the order of first appearance; nothing below relies on the order
  among equal counts.
\<close>

definition value_counts :: "'a list \<Rightarrow> ('a \<times> int) list" where
  "value_counts xs =
     sort_key (\<lambda>p. - snd p) (map (\<lambda>l. (l, int (count_list xs l))) (unique xs))"

text \<open>
  \<^verbatim>\<open>sentiment_counts = filtered_df['sentiment_label'].value_counts()\<close>; resetting the
  index and renaming the columns keeps the same pairs.
\<close>

definition sentiment_counts :: "table \<Rightarrow> (string \<times> int) list" where
  "sentiment_counts view = value_counts (map sentiment_label view)"

datatype py_error = ValueError | AttributeError

text \<open>
  \<^verbatim>\<open>pd.to_datetime\<close> on a column. The parser of a timestamp text belongs to pandas and
  is a parameter; \<open>None\<close> is a text it rejects, on which \<^verbatim>\<open>to_datetime\<close> raises.
\<close>

fun to_datetime_cell :: "(string \<Rightarrow> timestamp option) \<Rightarrow> at_cell \<Rightarrow> timestamp option" where
  "to_datetime_cell parse (AtText s) = parse s"
| "to_datetime_cell parse (AtTime t) = Some t"

fun to_datetime :: "(string \<Rightarrow> timestamp option) \<Rightarrow> at_cell list \<Rightarrow> py_error + timestamp list" where
  "to_datetime parse [] = Inr []"
| "to_datetime parse (c # cs) =
     (case to_datetime_cell parse c of
        None \<Rightarrow> Inl ValueError
      | Some t \<Rightarrow> (case to_datetime parse cs of Inl e \<Rightarrow> Inl e | Inr ts \<Rightarrow> Inr (t # ts)))"

text \<open>\<^verbatim>\<open>filtered_df['at'] = ...\<close>: the column of a frame replaced, row by row.\<close>

definition assign_at :: "table \<Rightarrow> timestamp list \<Rightarrow> table" where
  "assign_at view ts = map2 (\<lambda>r t. r\<lparr>at := AtTime t\<rparr>) view ts"

text \<open>
  \<^verbatim>\<open>Series.dt.date\<close>: the calendar date of each timestamp. The accessor exists only
  on a column of timestamps; on a text cell it raises.
\<close>

definition date_of :: "timestamp \<Rightarrow> date" where
  "date_of t = (year t, month t, day t)"

fun dt_date :: "at_cell list \<Rightarrow> py_error + date list" where
  "dt_date [] = Inr []"
| "dt_date (AtText s # cs) = Inl AttributeError"
| "dt_date (AtTime t # cs) = (case dt_date cs of Inl e \<Rightarrow> Inl e | Inr ds \<Rightarrow> Inr (date_of t # ds))"

text \<open>
  \<^verbatim>\<open>groupby(keys).size()\<close>: the number of rows per distinct key, keys ascending.
\<close>

definition groupby_size :: "'k::linorder list \<Rightarrow> ('k \<times> int) list" where
  "groupby_size ks = map (\<lambda>k. (k, int (count_list ks k))) (sort (remdups ks))"

text \<open>
  \<^verbatim>\<open>daily_counts = filtered_df.groupby(filtered_df['at'].dt.date).size().reset_index(name='count')\<close>
\<close>

definition daily_counts :: "table \<Rightarrow> py_error + (date \<times> int) list" where
  "daily_counts view =
     (case dt_date (map at view) of Inl e \<Rightarrow> Inl e | Inr ds \<Rightarrow> Inr (groupby_size ds))"

text \<open>
  The keys of \<^verbatim>\<open>groupby(['reviewCreatedVersion', 'sentiment_label'])\<close>: a row whose
  version is missing is dropped from the grouping.
\<close>

definition version_label_keys :: "table \<Rightarrow> (string \<times> string) list" where
  "version_label_keys view =
     List.map_filter
       (\<lambda>r. case reviewCreatedVersion r of None \<Rightarrow> None | Some v \<Rightarrow> Some (v, sentiment_label r))
       view"

text \<open>
  \<^verbatim>\<open>Series.unstack()\<close> of a series indexed by pairs: the first level becomes the row
  index, the second the sorted column index, and a pair without an entry is a missing cell.
\<close>

definition unstack :: "(('a \<times> 'b::linorder) \<times> int) list \<Rightarrow> 'a list \<times> 'b list \<times> int option list list" where
  "unstack s =
     (let idx = unique (map (\<lambda>p. fst (fst p)) s);
          cols = sort (remdups (map (\<lambda>p. snd (fst p)) s))
      in (idx, cols, map (\<lambda>v. map (\<lambda>l. map_of s (v, l)) cols) idx))"

text \<open>\<^verbatim>\<open>DataFrame.fillna(0)\<close>\<close>

definition fillna0 :: "int option list list \<Rightarrow> int list list" where
  "fillna0 rows = map (map (\<lambda>c. case c of None \<Rightarrow> 0 | Some n \<Rightarrow> n)) rows"

record heatmap =
  hm_index :: "string list"
  hm_columns :: "string list"
  hm_values :: "int list list"

text \<open>
  \<^verbatim>\<open>heatmap_df = filtered_df.groupby(['reviewCreatedVersion', 'sentiment_label']).size().unstack().fillna(0)\<close>
\<close>

definition heatmap_df :: "table \<Rightarrow> heatmap" where
  "heatmap_df view =
     (case unstack (groupby_size (version_label_keys view)) of
        (idx, cols, vals) \<Rightarrow> \<lparr>hm_index = idx, hm_columns = cols, hm_values = fillna0 vals\<rparr>)"

text \<open>The cell of a matrix at a row label and a column label, when both labels exist.\<close>

fun index_of :: "'a \<Rightarrow> 'a list \<Rightarrow> nat option" where
  "index_of x [] = None"
| "index_of x (y # ys) = (if x = y then Some 0 else map_option Suc (index_of x ys))"

definition cell :: "heatmap \<Rightarrow> string \<Rightarrow> string \<Rightarrow> int option" where
  "cell m v l =
     (case index_of v (hm_index m) of
        None \<Rightarrow> None
      | Some i \<Rightarrow> (case index_of l (hm_columns m) of
                    None \<Rightarrow> None
                  | Some j \<Rightarrow> Some (hm_values m ! i ! j)))"

section \<open>The page the script renders\<close>

text \<open>
  Streamlit runs the script from top to bottom on every interaction and renders each
  \<^verbatim>\<open>st.*\<close> call in order. A run is modelled by the list of rendered elements. The
  values the sidebar widgets return are the inputs of a run.
\<close>

datatype figure =
    Pie "(string \<times> int) list"
  | Bar "(string \<times> int) list" string
  | Box table
  | Line "(date \<times> int) list"
  | Heatmap heatmap

datatype ui_event =
    Title string
  | Markdown string
  | MarkdownHtml string
  | ErrorMsg string
  | Header string
  | Subheader string
  | SidebarHeader string
  | SidebarMarkdown string
  | SidebarSelectbox string "string list"
  | SidebarTextInput string
  | PlotlyChart figure

record session =
  selected_app :: string
  selected_version :: string
  chart_choice :: string
  question :: string

text \<open>
  The file system as the script sees it: whether \<^verbatim>\<open>data_path\<close> exists, and the table
  \<^verbatim>\<open>pd.read_csv(data_path)\<close> returns when it does.
\<close>

record env =
  data_exists :: bool
  data_csv :: table

definition load_data :: "env \<Rightarrow> table" where
  "load_data e = data_csv e"

text \<open>Lines 11-12.\<close>

definition banner :: "ui_event list" where
  "banner =
     [Title '' Smart Fintech Sentiment Explorer'',
      Markdown ''Gain insights from app store reviews for major fintech platforms.'']"

text \<open>Lines 27-57: the sidebar, with the options computed from the table.\<close>

definition sidebar :: "string list \<Rightarrow> string list \<Rightarrow> ui_event list" where
  "sidebar names vers =
     [SidebarHeader ([CHR 0xF0, CHR 0x9F, CHR 0x93, CHR 0x81] @ '' Filters''),
      SidebarSelectbox ''Select an App'' names,
      SidebarSelectbox ''Select App Version (optional)'' (''All'' # vers),
      SidebarMarkdown ''---'',
      SidebarHeader '' Visualization Selector'',
      SidebarSelectbox ''Choose a Chart to Display''
        [''Pie Chart'', ''Bar Chart'', ''Box Plot'', ''Line Chart'', ''Heatmap'',
         ''All Visualizations''],
      SidebarMarkdown ''---'',
      SidebarHeader '' Ask a Question'',
      SidebarTextInput ''E.g., How many negative reviews for Google Pay?'']"

definition answer_heading :: string where
  "answer_heading = [CHR 0xF0, CHR 0x9F, CHR 0x94, CHR 0x8D] @ '' Answer to your Question:''"

text \<open>Lines 59-65: nothing is rendered for an empty question.\<close>

definition qna_block :: "table \<Rightarrow> string \<Rightarrow> ui_event list" where
  "qna_block df q =
     (if q \<noteq> [] then [Subheader answer_heading, Markdown (answer df q)] else [])"

text \<open>
  Lines 81-201: the chart chosen in the sidebar. The result is the elements rendered and
  the exception that ended the rendering, if one did.
\<close>

definition charts ::
  "string \<Rightarrow> string \<Rightarrow> (string \<times> int) list \<Rightarrow> table \<Rightarrow> ui_event list \<times> py_error option" where
  "charts choice app sentiment_df view =
     (if choice = ''Pie Chart'' then
        ([Subheader ''Sentiment Distribution (Pie Chart)'', PlotlyChart (Pie sentiment_df)], None)
      else if choice = ''Bar Chart'' then
        ([Subheader ''Bar Chart of Sentiment Counts'',
          PlotlyChart (Bar sentiment_df (''Sentiment Count for '' @ app))], None)
      else if choice = ''Box Plot'' then
        ([Subheader ''Box Plot of Sentiment Scores'', PlotlyChart (Box view)], None)
      else if choice = ''Line Chart'' then
        (case daily_counts view of
           Inl e \<Rightarrow> ([Subheader ''Reviews Over Time''], Some e)
         | Inr dc \<Rightarrow> ([Subheader ''Reviews Over Time'', PlotlyChart (Line dc)], None))
      else if choice = ''Heatmap'' then
        ([Subheader ''Heatmap of Versions and Sentiments'',
          PlotlyChart (Heatmap (heatmap_df view))], None)
      else if choice = ''All Visualizations'' then
        (case daily_counts view of
           Inl e \<Rightarrow>
             ([Subheader ''1. Sentiment Distribution (Pie Chart)'', PlotlyChart (Pie sentiment_df),
               Subheader ''2. Bar Chart of Sentiment Counts'',
               PlotlyChart (Bar sentiment_df (''Sentiment Count for '' @ app)),
               Subheader ''3. Box Plot of Sentiment Scores'', PlotlyChart (Box view),
               Subheader ''4. Reviews Over Time''], Some e)
         | Inr dc \<Rightarrow>
             ([Subheader ''1. Sentiment Distribution (Pie Chart)'', PlotlyChart (Pie sentiment_df),
               Subheader ''2. Bar Chart of Sentiment Counts'',
               PlotlyChart (Bar sentiment_df (''Sentiment Count for '' @ app)),
               Subheader ''3. Box Plot of Sentiment Scores'', PlotlyChart (Box view),
               Subheader ''4. Reviews Over Time'', PlotlyChart (Line dc),
               Subheader ''5. Heatmap of Versions and Sentiments'',
               PlotlyChart (Heatmap (heatmap_df view))], None))
      else ([], None))"

text \<open>Lines 206-214.\<close>

definition footer :: "ui_event list" where
  "footer =
     [Markdown ''---'',
      MarkdownHtml
        ([CHR 0x0A] @ ''    <div style='' @ [CHR 0x22] @ ''text-align: center;'' @ [CHR 0x22]
         @ ''>'' @ [CHR 0x0A]
         @ ''        Developed by <strong>Pragathi</strong> using <a href='' @ [CHR 0x22]
         @ ''https://streamlit.io/'' @ [CHR 0x22] @ '' target='' @ [CHR 0x22] @ ''_blank''
         @ [CHR 0x22] @ ''><code>Streamlit</code></a> '' @ [CHR 0xF0, CHR 0x9F, CHR 0x9A, CHR 0x80]
         @ [CHR 0x0A] @ ''    </div>'' @ [CHR 0x0A] @ ''    '')]"

section \<open>A run of the script\<close>

text \<open>
  Data frames are objects: \<^verbatim>\<open>df\<close> and \<^verbatim>\<open>filtered_df\<close> are references, and line 73
  assigns a column of the frame \<^verbatim>\<open>filtered_df\<close> refers to. The heap is the list of the
  frames allocated so far and a reference is a position in it. Selecting rows with a boolean
  mask (lines 31 and 37) builds a new frame; \<^verbatim>\<open>load_data\<close> hands out the table read from
  the file.

  A run ends in one of three ways: \<^verbatim>\<open>st.stop()\<close> after the missing-file message, an
  exception, or the end of the script.
\<close>

type_synonym heap = "table list"

definition alloc :: "heap \<Rightarrow> table \<Rightarrow> heap \<times> nat" where
  "alloc h t = (h @ [t], length h)"

datatype status = Stopped | Raised py_error | Finished

record run =
  status :: status
  page :: "ui_event list"
  heap :: heap
  var_df :: "nat option"
  var_filtered_df :: "nat option"

definition script :: "(string \<Rightarrow> timestamp option) \<Rightarrow> env \<Rightarrow> session \<Rightarrow> run" where
  "script parse e ses =
     (if \<not> data_exists e then
        \<lparr>status = Stopped,
         page = banner @ [ErrorMsg ''Data file not found. Please run sentiment analysis script first.''],
         heap = [], var_df = None, var_filtered_df = None\<rparr>
      else
        (case alloc [] (load_data e) of (h1, df) \<Rightarrow>
         case alloc h1 (filter_app (h1 ! df) (selected_app ses)) of (h2, fdf1) \<Rightarrow>
         case (if selected_version ses \<noteq> ''All''
               then alloc h2 (filter_version (h2 ! fdf1) (selected_version ses))
               else (h2, fdf1)) of (h3, fdf) \<Rightarrow>
         let page1 = banner @ sidebar (app_names (h1 ! df)) (versions (h2 ! fdf1))
                       @ qna_block (h3 ! df) (question ses);
             sentiment_df = sentiment_counts (h3 ! fdf)
         in (case to_datetime parse (map at (h3 ! fdf)) of
               Inl err \<Rightarrow>
                 \<lparr>status = Raised err, page = page1, heap = h3,
                  var_df = Some df, var_filtered_df = Some fdf\<rparr>
             | Inr ts \<Rightarrow>
                 let h4 = h3[fdf := assign_at (h3 ! fdf) ts];
                     page2 = page1 @ [Header ('' Visualization for '' @ selected_app ses)]
                 in (case charts (chart_choice ses) (selected_app ses) sentiment_df (h4 ! fdf) of
                       (evs, Some err) \<Rightarrow>
                         \<lparr>status = Raised err, page = page2 @ evs, heap = h4,
                          var_df = Some df, var_filtered_df = Some fdf\<rparr>
                     | (evs, None) \<Rightarrow>
                         \<lparr>status = Finished, page = page2 @ evs @ footer, heap = h4,
                          var_df = Some df, var_filtered_df = Some fdf\<rparr>))))"

text \<open>What a reader of the page sees as the answer: the text under the answer heading.\<close>

fun answer_shown :: "ui_event list \<Rightarrow> string option" where
  "answer_shown [] = None"
| "answer_shown [e] = None"
| "answer_shown (Subheader s # Markdown m # es) =
     (if s = answer_heading then Some m else answer_shown (Markdown m # es))"
| "answer_shown (e # e' # es) = answer_shown (e' # es)"

text \<open>Reading a decimal numeral back, to state what \<open>str_nat\<close> writes.\<close>

definition dec_value :: "string \<Rightarrow> nat" where
  "dec_value s = foldl (\<lambda>a c. 10 * a + (of_char c - 48)) 0 s"

section \<open>Sample data\<close>

text \<open>
  Three reviews, a table of them, and a parser that accepts the two timestamp texts of the
  table. They are the concrete inputs of the instances below.
\<close>

abbreviation (input) gp_neg :: review where
  "gp_neg \<equiv> \<lparr>app_name = ''Google Pay'', reviewCreatedVersion = Some ''1.2'',
     sentiment_label = ''negative'', sentiment_score = 0x3FC999999999999A,
     at = AtText ''2023-01-05 10:00:00''\<rparr>"

abbreviation (input) gp_pos :: review where
  "gp_pos \<equiv> \<lparr>app_name = ''Google Pay'', reviewCreatedVersion = Some ''1.10'',
     sentiment_label = ''positive'', sentiment_score = 0x3FECCCCCCCCCCCCD,
     at = AtText ''2023-01-04 09:30:00''\<rparr>"

abbreviation (input) pp_pos :: review where
  "pp_pos \<equiv> \<lparr>app_name = ''PhonePe'', reviewCreatedVersion = None,
     sentiment_label = ''positive'', sentiment_score = 0x3FE0000000000000,
     at = AtText ''2023-01-05 10:00:00''\<rparr>"

abbreviation (input) sample_table :: table where
  "sample_table \<equiv> [gp_neg, pp_pos, gp_pos]"

abbreviation (input) jan5 :: timestamp where
  "jan5 \<equiv> \<lparr>year = 2023, month = 1, day = 5, hour = 10, minute = 0, second = 0\<rparr>"

abbreviation (input) jan4 :: timestamp where
  "jan4 \<equiv> \<lparr>year = 2023, month = 1, day = 4, hour = 9, minute = 30, second = 0\<rparr>"

abbreviation (input) sample_parse :: "string \<Rightarrow> timestamp option" where
  "sample_parse \<equiv> (\<lambda>s. if s = ''2023-01-05 10:00:00'' then Some jan5
                        else if s = ''2023-01-04 09:30:00'' then Some jan4 else None)"

section \<open>Facts about the helpers\<close>

lemma set_unique: "set (unique xs) = set xs"
  by (simp add: unique_def)

lemma distinct_unique: "distinct (unique xs)"
  by (simp add: unique_def)

lemma set_app_names: "set (app_names df) = app_name ` set df"
  by (simp add: app_names_def set_unique)

lemma distinct_app_names: "distinct (app_names df)"
  by (simp add: app_names_def distinct_unique)

lemma filtered_df_All: "filtered_df df a ''All'' = filter (\<lambda>r. app_name r = a) df"
  by (simp add: filtered_df_def filter_app_def)

lemma mset_filter_split:
  "k \<notin> set ks \<Longrightarrow>
   mset (filter (\<lambda>r. f r = k) xs) + mset (filter (\<lambda>r. f r \<in> set ks) xs) =
   mset (filter (\<lambda>r. f r = k \<or> f r \<in> set ks) xs)"
  by (induction xs) auto

lemma sum_list_mset_filter:
  "distinct ks \<Longrightarrow>
   (\<Sum>k\<leftarrow>ks. mset (filter (\<lambda>r. f r = k) xs)) = mset (filter (\<lambda>r. f r \<in> set ks) xs)"
proof (induction ks)
  case Nil
  then show ?case by simp
next
  case (Cons k ks)
  then have "k \<notin> set ks" and "distinct ks" by simp_all
  with Cons.IH mset_filter_split [of k ks f xs] show ?case by simp
qed

section \<open>The sidebar filters\<close>

text \<open>
  C1. For every app name \<open>a\<close> of the table, the view for \<open>a\<close> and version \<^verbatim>\<open>"All"\<close> is
  exactly the rows whose \<open>app_name\<close> is \<open>a\<close>. The views of two different app names have no
  row in common, every row of the table is in one of the views, and, counting repeated
  rows, the views of the distinct app names add up to the table.
\<close>

theorem filter_app_partition:
  "(\<forall>a \<in> set (app_names df). filtered_df df a ''All'' = filter (\<lambda>r. app_name r = a) df) \<and>
   (\<forall>a \<in> set (app_names df). \<forall>b \<in> set (app_names df).
      a \<noteq> b \<longrightarrow> set (filtered_df df a ''All'') \<inter> set (filtered_df df b ''All'') = {}) \<and>
   (\<Union>a \<in> set (app_names df). set (filtered_df df a ''All'')) = set df \<and>
   (\<Sum>a\<leftarrow>app_names df. mset (filtered_df df a ''All'')) = mset df"
proof -
  have exact: "\<forall>a \<in> set (app_names df). filtered_df df a ''All'' = filter (\<lambda>r. app_name r = a) df"
    by (simp add: filtered_df_All)
  have disj: "\<forall>a \<in> set (app_names df). \<forall>b \<in> set (app_names df).
      a \<noteq> b \<longrightarrow> set (filtered_df df a ''All'') \<inter> set (filtered_df df b ''All'') = {}"
    by (auto simp: filtered_df_All)
  have cover: "(\<Union>a \<in> set (app_names df). set (filtered_df df a ''All'')) = set df"
    by (auto simp: filtered_df_All set_app_names)
  have "(\<Sum>a\<leftarrow>app_names df. mset (filtered_df df a ''All'')) =
        mset (filter (\<lambda>r. app_name r \<in> set (app_names df)) df)"
    using sum_list_mset_filter [OF distinct_app_names, of app_name df df]
    by (simp add: filtered_df_All)
  also have "\<dots> = mset df"
    by (simp add: set_app_names)
  finally have part: "(\<Sum>a\<leftarrow>app_names df. mset (filtered_df df a ''All'')) = mset df" .
  from exact disj cover part show ?thesis by blast
qed

text \<open>The sample table has two app names; the view of each is its rows.\<close>

theorem filter_app_partition_witness:
  "app_names sample_table = [''Google Pay'', ''PhonePe''] \<and>
   filtered_df sample_table ''Google Pay'' ''All'' = [gp_neg, gp_pos] \<and>
   filtered_df sample_table ''PhonePe'' ''All'' = [pp_pos] \<and>
   set (filtered_df sample_table ''Google Pay'' ''All'')
     \<inter> set (filtered_df sample_table ''PhonePe'' ''All'') = {} \<and>
   mset (filtered_df sample_table ''Google Pay'' ''All'')
     + mset (filtered_df sample_table ''PhonePe'' ''All'') = mset sample_table"
proof -
  have names: "app_names sample_table = [''Google Pay'', ''PhonePe'']"
    by (simp add: app_names_def unique_def)
  show ?thesis
    using filter_app_partition [of sample_table] unfolding names by simp
qed

text \<open>
  C2. With \<^verbatim>\<open>"All"\<close> as the version the view is the app-filtered view. With any other
  version \<open>v\<close> the view is exactly the rows of the app-filtered view whose
  \<open>reviewCreatedVersion\<close> is \<open>v\<close>, that is the rows of the table with that app and that
  version; a row without a version is in no such view.
\<close>

theorem version_filter:
  "filtered_df df a ''All'' = filter_app df a \<and>
   (v \<noteq> ''All'' \<longrightarrow>
      filtered_df df a v = filter (\<lambda>r. reviewCreatedVersion r = Some v) (filtered_df df a ''All'') \<and>
      filtered_df df a v = filter (\<lambda>r. app_name r = a \<and> reviewCreatedVersion r = Some v) df)"
  by (auto simp: filtered_df_def filter_app_def filter_version_def intro: filter_cong)

theorem version_filter_witness:
  "''1.2'' \<noteq> ''All'' \<and>
   filtered_df sample_table ''Google Pay'' ''All'' = [gp_neg, gp_pos] \<and>
   filtered_df sample_table ''Google Pay'' ''1.2'' = [gp_neg]"
  using version_filter [of sample_table "''Google Pay''" "''1.2''"]
  by (simp add: filter_app_def)

section \<open>Question answering\<close>

lemma sublist_map_iff: "sublist p (map f q) \<longleftrightarrow> (\<exists>w. sublist w q \<and> map f w = p)"
proof
  assume "sublist p (map f q)"
  then obtain ps ss where "map f q = ps @ p @ ss"
    by (auto simp: sublist_def)
  then have "\<exists>us vs. q = us @ vs \<and> ps = map f us \<and> p @ ss = map f vs"
    by (simp only: map_eq_append_conv)
  then obtain q1 r where q1: "q = q1 @ r" and "map f r = p @ ss"
    by auto
  then have "\<exists>us vs. r = us @ vs \<and> p = map f us \<and> ss = map f vs"
    by (simp only: map_eq_append_conv)
  then obtain w q2 where "r = w @ q2" and "map f w = p"
    by auto
  with q1 have "q = q1 @ w @ q2" and "map f w = p"
    by simp_all
  then show "\<exists>w. sublist w q \<and> map f w = p"
    by (auto simp: sublist_def)
next
  assume "\<exists>w. sublist w q \<and> map f w = p"
  then obtain w ps ss where "q = ps @ w @ ss" and "map f w = p"
    by (auto simp: sublist_def)
  then have "map f q = map f ps @ p @ map f ss"
    by simp
  then show "sublist p (map f q)"
    unfolding sublist_def by blast
qed

text \<open>
  A pattern in lower case occurs in the lowered question exactly when some piece of the
  question reads as the pattern once lowered: the match ignores case.
\<close>

lemma sublist_lower_iff: "sublist p (lower q) \<longleftrightarrow> (\<exists>w. sublist w q \<and> lower w = p)"
  by (simp add: lower_def sublist_map_iff)

lemma of_char_digit: "d < 10 \<Longrightarrow> (of_char (digit_char d) :: nat) = 48 + d"
  by (simp add: digit_char_def)

text \<open>The numeral \<open>str_nat\<close> writes reads back as the number.\<close>

lemma dec_value_str_nat: "dec_value (str_nat n) = n"
proof (induction n rule: str_nat.induct)
  case (1 n)
  show ?case
  proof (cases "n < 10")
    case True
    then show ?thesis
      by (subst str_nat.simps) (simp add: dec_value_def of_char_digit)
  next
    case False
    with 1 have "dec_value (str_nat (n div 10)) = n div 10" by simp
    with False show ?thesis
      by (subst str_nat.simps) (simp add: dec_value_def of_char_digit)
  qed
qed

text \<open>
  C3, as the claim states it, fails. The table has the app name PhonePe with one negative
  review, and the question contains both \<^verbatim>\<open>negative\<close> and that app name; the answer is
  the not-recognized message and does not contain the count.
\<close>

theorem answer_other_app_counterexample:
  "''PhonePe'' \<in> set (app_names
      [\<lparr>app_name = ''PhonePe'', reviewCreatedVersion = None, sentiment_label = ''negative'',
        sentiment_score = 0x3FC999999999999A, at = AtText ''2023-01-05 10:00:00''\<rparr>]) \<and>
   sublist ''negative'' (lower ''How many negative reviews for PhonePe?'') \<and>
   sublist (lower ''PhonePe'') (lower ''How many negative reviews for PhonePe?'') \<and>
   length (filter (\<lambda>r. app_name r = ''PhonePe'' \<and> sentiment_label r = ''negative'')
      [\<lparr>app_name = ''PhonePe'', reviewCreatedVersion = None, sentiment_label = ''negative'',
        sentiment_score = 0x3FC999999999999A, at = AtText ''2023-01-05 10:00:00''\<rparr>]) = 1 \<and>
   answer
      [\<lparr>app_name = ''PhonePe'', reviewCreatedVersion = None, sentiment_label = ''negative'',
        sentiment_score = 0x3FC999999999999A, at = AtText ''2023-01-05 10:00:00''\<rparr>]
      ''How many negative reviews for PhonePe?'' = ''Question not recognized. Try a different query.'' \<and>
   \<not> sublist (str_nat 1)
      (answer
        [\<lparr>app_name = ''PhonePe'', reviewCreatedVersion = None, sentiment_label = ''negative'',
          sentiment_score = 0x3FC999999999999A, at = AtText ''2023-01-05 10:00:00''\<rparr>]
        ''How many negative reviews for PhonePe?'')"
  by code_simp

text \<open>
  C3, amended. The one recognized pattern names Google Pay, whatever app names the table
  has: when the question contains, ignoring case, both \<^verbatim>\<open>negative\<close> and
  \<^verbatim>\<open>google pay\<close>, the answer is the sentence with the number of rows whose \<open>app_name\<close>
  is \<^verbatim>\<open>Google Pay\<close> and whose \<open>sentiment_label\<close> is \<^verbatim>\<open>negative\<close>; for every other
  question it is the fixed not-recognized message. The script renders the answer for a
  non-empty question and renders nothing for an empty one.
\<close>

theorem answer_google_pay_only:
  "answer df q =
     (if (\<exists>w. sublist w q \<and> lower w = ''negative'') \<and> (\<exists>w. sublist w q \<and> lower w = ''google pay'')
      then '' **Google Pay has ''
           @ str_nat (length (filter (\<lambda>r. app_name r = ''Google Pay'' \<and> sentiment_label r = ''negative'') df))
           @ '' negative reviews**.''
      else ''Question not recognized. Try a different query.'') \<and>
   qna_block df q = (if q = [] then [] else [Subheader answer_heading, Markdown (answer df q)])"
proof (rule conjI)
  show "answer df q =
     (if (\<exists>w. sublist w q \<and> lower w = ''negative'') \<and> (\<exists>w. sublist w q \<and> lower w = ''google pay'')
      then '' **Google Pay has ''
           @ str_nat (length (filter (\<lambda>r. app_name r = ''Google Pay'' \<and> sentiment_label r = ''negative'') df))
           @ '' negative reviews**.''
      else ''Question not recognized. Try a different query.'')"
    by (simp only: answer_def sublist_lower_iff negative_count_def not_recognized_def)
  show "qna_block df q = (if q = [] then [] else [Subheader answer_heading, Markdown (answer df q)])"
    by (simp add: qna_block_def)
qed

text \<open>
  On the sample table a Google Pay question in mixed case is answered with the count 1,
  and the same question about PhonePe is not recognized.
\<close>

theorem answer_google_pay_only_witness:
  "answer sample_table ''Any NEGATIVE reviews of Google Pay?'' =
     '' **Google Pay has 1 negative reviews**.'' \<and>
   answer sample_table ''Any negative reviews of PhonePe?'' =
     ''Question not recognized. Try a different query.''"
proof -
  have neg: "\<exists>w. sublist w ''Any NEGATIVE reviews of Google Pay?'' \<and> lower w = ''negative''"
    by (rule exI [of _ "''NEGATIVE''"]) code_simp
  have gp: "\<exists>w. sublist w ''Any NEGATIVE reviews of Google Pay?'' \<and> lower w = ''google pay''"
    by (rule exI [of _ "''Google Pay''"]) code_simp
  have n: "str_nat (length (filter (\<lambda>r. app_name r = ''Google Pay'' \<and> sentiment_label r = ''negative'')
             sample_table)) = ''1''"
    by code_simp
  have "\<not> sublist ''google pay'' (lower ''Any negative reviews of PhonePe?'')"
    by code_simp
  then have nogp: "\<not> (\<exists>w. sublist w ''Any negative reviews of PhonePe?'' \<and> lower w = ''google pay'')"
    unfolding sublist_lower_iff .
  show ?thesis
    using answer_google_pay_only [of sample_table "''Any NEGATIVE reviews of Google Pay?''"]
          answer_google_pay_only [of sample_table "''Any negative reviews of PhonePe?''"]
          neg gp n nogp
    by simp
qed

lemma lower_example:
  "lower ''How many negative reviews for Google Pay?'' = ''how many negative reviews for google pay?''"
  by code_simp

lemma example_has_negative: "sublist ''negative'' ''how many negative reviews for google pay?''"
  by code_simp

lemma example_has_google_pay: "sublist ''google pay'' ''how many negative reviews for google pay?''"
  by code_simp

text \<open>
  C4. For every table, the answer to \<^verbatim>\<open>How many negative reviews for Google Pay?\<close> is
  the sentence \<^verbatim>\<open> **Google Pay has N negative reviews**.\<close> where \<open>N\<close> is the decimal
  numeral of the number of rows with \<open>app_name\<close> \<^verbatim>\<open>Google Pay\<close> and \<open>sentiment_label\<close>
  \<^verbatim>\<open>negative\<close>; so the answer contains that numeral, and the numeral reads back as
  exactly that number.
\<close>

theorem answer_example_question:
  "answer df ''How many negative reviews for Google Pay?'' =
     '' **Google Pay has ''
     @ str_nat (length (filter (\<lambda>r. app_name r = ''Google Pay'' \<and> sentiment_label r = ''negative'') df))
     @ '' negative reviews**.'' \<and>
   sublist (str_nat (length (filter (\<lambda>r. app_name r = ''Google Pay'' \<and> sentiment_label r = ''negative'') df)))
     (answer df ''How many negative reviews for Google Pay?'') \<and>
   dec_value (str_nat (length (filter (\<lambda>r. app_name r = ''Google Pay'' \<and> sentiment_label r = ''negative'') df))) =
     length (filter (\<lambda>r. app_name r = ''Google Pay'' \<and> sentiment_label r = ''negative'') df)"
proof -
  have eq: "answer df ''How many negative reviews for Google Pay?'' =
     '' **Google Pay has ''
     @ str_nat (length (filter (\<lambda>r. app_name r = ''Google Pay'' \<and> sentiment_label r = ''negative'') df))
     @ '' negative reviews**.''"
    unfolding answer_def lower_example negative_count_def
    using example_has_negative example_has_google_pay by simp
  show ?thesis
    unfolding eq by (simp only: sublist_appendI dec_value_str_nat simp_thms)
qed

section \<open>Chart data\<close>

lemma sum_count_unique: "(\<Sum>l\<leftarrow>unique xs. int (count_list xs l)) = int (length xs)"
proof -
  have "(\<Sum>l\<leftarrow>unique xs. int (count_list xs l)) = (\<Sum>l\<in>set xs. int (count_list xs l))"
    using sum_list_distinct_conv_sum_set [OF distinct_unique, of "\<lambda>l. int (count_list xs l)" xs]
    by (simp add: set_unique)
  also have "\<dots> = int (\<Sum>l\<in>set xs. count_list xs l)"
    by simp
  also have "\<dots> = int (length xs)"
    using sum_count_set [of xs "set xs"] by simp
  finally show ?thesis .
qed

lemma sum_list_sort_key:
  fixes g :: "'a \<Rightarrow> int"
  shows "sum_list (map g (sort_key f xs)) = sum_list (map g xs)"
proof -
  have "sum_mset (mset (map g (sort_key f xs))) = sum_mset (mset (map g xs))"
    by simp
  then show ?thesis
    by (simp only: sum_mset_sum_list)
qed

lemma value_counts_total: "sum_list (map snd (value_counts xs)) = int (length xs)"
  using sum_count_unique [of xs]
  by (simp add: value_counts_def sum_list_sort_key comp_def)

text \<open>
  C7. For every table and every app and version selected, the counts of
  \<open>sentiment_counts\<close> on the filtered view add up to the number of rows of that view.
\<close>

theorem sentiment_counts_total:
  "sum_list (map snd (sentiment_counts (filtered_df df a v))) = int (length (filtered_df df a v))"
  by (simp add: sentiment_counts_def value_counts_total)

theorem sentiment_counts_total_witness:
  "sentiment_counts (filtered_df sample_table ''Google Pay'' ''All'') =
     [(''negative'', 1), (''positive'', 1)] \<and>
   sum_list (map snd (sentiment_counts (filtered_df sample_table ''Google Pay'' ''All''))) = 2"
proof -
  have "sentiment_counts (filtered_df sample_table ''Google Pay'' ''All'') =
          [(''negative'', 1), (''positive'', 1)]"
    by code_simp
  moreover have "length (filtered_df sample_table ''Google Pay'' ''All'') = 2"
    by code_simp
  ultimately show ?thesis
    using sentiment_counts_total [of sample_table "''Google Pay''" "''All''"] by simp
qed

lemma groupby_size_keys: "map fst (groupby_size ks) = sort (remdups ks)"
  by (simp add: groupby_size_def comp_def)

lemma groupby_size_strict: "sorted_wrt (<) (map fst (groupby_size ks))"
  by (simp add: groupby_size_keys strict_sorted_iff)

lemma to_datetime_length: "to_datetime parse cs = Inr ts \<Longrightarrow> length ts = length cs"
  by (induction cs arbitrary: ts) (auto split: option.splits sum.splits)

lemma dt_date_AtTime: "dt_date (map AtTime ts) = Inr (map date_of ts)"
  by (induction ts) auto

lemma at_assign_at: "length ts = length view \<Longrightarrow> map at (assign_at view ts) = map AtTime ts"
  by (induction view ts rule: list_induct2') (auto simp: assign_at_def)

text \<open>
  C6. Whenever \<open>daily_counts\<close> returns for a view, the dates of the result are strictly
  ascending, so no date occurs twice. It does return on every view whose \<^verbatim>\<open>at\<close> column
  was converted as line 73 does: the result is then the group count of the calendar dates
  of the converted timestamps.
\<close>

theorem daily_counts_ascending:
  "(daily_counts view = Inr dc \<longrightarrow> sorted_wrt (<) (map fst dc) \<and> distinct (map fst dc)) \<and>
   (to_datetime parse (map at view) = Inr ts \<longrightarrow>
      daily_counts (assign_at view ts) = Inr (groupby_size (map date_of ts)))"
proof -
  have "sorted_wrt (<) (map fst dc) \<and> distinct (map fst dc)" if "daily_counts view = Inr dc"
  proof -
    from that obtain ds where "dc = groupby_size ds"
      by (auto simp: daily_counts_def split: sum.splits)
    then show ?thesis
      using groupby_size_strict [of ds] by (simp add: strict_sorted_iff)
  qed
  moreover have "daily_counts (assign_at view ts) = Inr (groupby_size (map date_of ts))"
    if "to_datetime parse (map at view) = Inr ts"
  proof -
    from that have "length ts = length view"
      using to_datetime_length by fastforce
    then show ?thesis
      by (simp add: daily_counts_def at_assign_at dt_date_AtTime)
  qed
  ultimately show ?thesis by blast
qed

text \<open>
  The three rows of the sample table fall on two days; the converted table gives one entry
  per day, the earlier day first.
\<close>

theorem daily_counts_ascending_witness:
  "to_datetime sample_parse (map at sample_table) = Inr [jan5, jan5, jan4] \<and>
   daily_counts (assign_at sample_table [jan5, jan5, jan4]) =
     Inr [((2023, 1, 4), 1), ((2023, 1, 5), 2)] \<and>
   sorted_wrt (<) [(2023, 1, 4), (2023, 1, 5 :: nat) :: date] \<and>
   distinct [(2023, 1, 4), (2023, 1, 5 :: nat) :: date]"
proof -
  have conv: "to_datetime sample_parse (map at sample_table) = Inr [jan5, jan5, jan4]"
    by code_simp
  have dc: "daily_counts (assign_at sample_table [jan5, jan5, jan4]) =
              Inr [((2023, 1, 4), 1), ((2023, 1, 5), 2)]"
    by code_simp
  show ?thesis
    using daily_counts_ascending [where view = "assign_at sample_table [jan5, jan5, jan4]"
            and dc = "[((2023, 1, 4), 1), ((2023, 1, 5), 2)]"]
          daily_counts_ascending [where view = sample_table and parse = sample_parse
            and ts = "[jan5, jan5, jan4]"]
          conv dc
    by simp
qed

lemma index_of_Some: "index_of x xs = Some i \<Longrightarrow> i < length xs \<and> xs ! i = x"
  by (induction xs arbitrary: i) (auto split: if_splits)

lemma index_of_mem: "x \<in> set xs \<Longrightarrow> \<exists>i. index_of x xs = Some i"
  by (induction xs) auto

lemma map_of_groupby_size:
  "map_of (groupby_size ks) k = (if k \<in> set ks then Some (int (count_list ks k)) else None)"
  by (simp add: groupby_size_def map_of_map_restrict restrict_map_def)

lemma set_version_label_keys:
  "set (version_label_keys view) =
     {(v, l). \<exists>r \<in> set view. reviewCreatedVersion r = Some v \<and> sentiment_label r = l}"
  by (induction view) (auto simp: version_label_keys_def List.map_filter_simps split: option.splits)

lemma count_version_label_keys:
  "count_list (version_label_keys view) (v, l) =
     length (filter (\<lambda>r. reviewCreatedVersion r = Some v \<and> sentiment_label r = l) view)"
  by (induction view) (auto simp: version_label_keys_def List.map_filter_simps split: option.splits)

lemma hm_index_heatmap_df:
  "set (hm_index (heatmap_df view)) = fst ` set (version_label_keys view)"
  by (auto simp: heatmap_df_def unstack_def set_unique groupby_size_def Let_def image_iff)

lemma hm_columns_heatmap_df:
  "set (hm_columns (heatmap_df view)) = snd ` set (version_label_keys view)"
  by (auto simp: heatmap_df_def unstack_def groupby_size_def Let_def image_iff)

lemma hm_values_heatmap_df:
  "hm_values (heatmap_df view) =
     map (\<lambda>v. map (\<lambda>l. if (v, l) \<in> set (version_label_keys view)
                         then int (count_list (version_label_keys view) (v, l)) else 0)
                (hm_columns (heatmap_df view)))
         (hm_index (heatmap_df view))"
  by (simp add: heatmap_df_def unstack_def fillna0_def Let_def map_of_groupby_size comp_def)

lemma count_list_absent: "x \<notin> set xs \<Longrightarrow> count_list xs x = 0"
  by (simp add: count_list_0_iff)

text \<open>
  Every cell of the matrix, addressed by a row label and a column label, holds the number
  of rows of the view with that version and that label.
\<close>

lemma cell_heatmap_df:
  assumes "v \<in> set (hm_index (heatmap_df view))" and "l \<in> set (hm_columns (heatmap_df view))"
  shows "cell (heatmap_df view) v l =
           Some (int (length (filter (\<lambda>r. reviewCreatedVersion r = Some v \<and> sentiment_label r = l) view)))"
proof -
  from assms obtain i j where
    i: "index_of v (hm_index (heatmap_df view)) = Some i" and
    j: "index_of l (hm_columns (heatmap_df view)) = Some j"
    using index_of_mem by metis
  from index_of_Some [OF i] index_of_Some [OF j]
  have "hm_values (heatmap_df view) ! i ! j =
          (if (v, l) \<in> set (version_label_keys view)
           then int (count_list (version_label_keys view) (v, l)) else 0)"
    by (simp add: hm_values_heatmap_df)
  also have "\<dots> = int (count_list (version_label_keys view) (v, l))"
    by (simp add: count_list_absent)
  finally show ?thesis
    using i j by (simp add: cell_def count_version_label_keys)
qed

text \<open>
  C5. For every view, no cell of \<open>heatmap_df\<close> is negative; a cell whose version and label
  occur together in no row of the view is 0; and for every row of the view that has a
  version, the cell of its version and label exists and is at least 1. The matrix has a
  row for each version of the view and a column for each label of the rows that have a
  version; rows without a version are left out of the grouping and have no cell.
\<close>

theorem heatmap_df_cells:
  "(\<forall>row \<in> set (hm_values (heatmap_df view)). \<forall>c \<in> set row. 0 \<le> c) \<and>
   (\<forall>v \<in> set (hm_index (heatmap_df view)). \<forall>l \<in> set (hm_columns (heatmap_df view)).
      (\<forall>r \<in> set view. \<not> (reviewCreatedVersion r = Some v \<and> sentiment_label r = l)) \<longrightarrow>
      cell (heatmap_df view) v l = Some 0) \<and>
   (\<forall>r \<in> set view. \<forall>v. reviewCreatedVersion r = Some v \<longrightarrow>
      (\<exists>c. cell (heatmap_df view) v (sentiment_label r) = Some c \<and> 1 \<le> c))"
proof -
  have nonneg: "\<forall>row \<in> set (hm_values (heatmap_df view)). \<forall>c \<in> set row. 0 \<le> c"
    by (subst hm_values_heatmap_df) auto
  have absent: "cell (heatmap_df view) v l = Some 0"
    if "v \<in> set (hm_index (heatmap_df view))" "l \<in> set (hm_columns (heatmap_df view))"
       "\<forall>r \<in> set view. \<not> (reviewCreatedVersion r = Some v \<and> sentiment_label r = l)" for v l
  proof -
    from that(3) have "filter (\<lambda>r. reviewCreatedVersion r = Some v \<and> sentiment_label r = l) view = []"
      by (simp add: filter_empty_conv)
    with cell_heatmap_df [OF that(1,2)] show ?thesis by simp
  qed
  have observed: "\<exists>c. cell (heatmap_df view) v (sentiment_label r) = Some c \<and> 1 \<le> c"
    if "r \<in> set view" "reviewCreatedVersion r = Some v" for r v
  proof -
    from that have key: "(v, sentiment_label r) \<in> set (version_label_keys view)"
      by (auto simp: set_version_label_keys)
    then have "v \<in> set (hm_index (heatmap_df view))"
      and "sentiment_label r \<in> set (hm_columns (heatmap_df view))"
      by (force simp: hm_index_heatmap_df hm_columns_heatmap_df)+
    then have c: "cell (heatmap_df view) v (sentiment_label r) =
        Some (int (length (filter (\<lambda>r'. reviewCreatedVersion r' = Some v
                                         \<and> sentiment_label r' = sentiment_label r) view)))"
      by (rule cell_heatmap_df)
    from that have "filter (\<lambda>r'. reviewCreatedVersion r' = Some v
                                  \<and> sentiment_label r' = sentiment_label r) view \<noteq> []"
      by (auto simp: filter_empty_conv)
    then have "1 \<le> int (length (filter (\<lambda>r'. reviewCreatedVersion r' = Some v
                                        \<and> sentiment_label r' = sentiment_label r) view))"
      by (simp add: Suc_le_eq)
    with c show ?thesis by simp
  qed
  from nonneg absent observed show ?thesis by blast
qed

text \<open>
  The matrix of the sample table: two versions, two labels; the PhonePe row has no version
  and is not counted.
\<close>

theorem heatmap_df_cells_witness:
  "heatmap_df sample_table =
     \<lparr>hm_index = [''1.10'', ''1.2''], hm_columns = [''negative'', ''positive''],
      hm_values = [[0, 1], [1, 0]]\<rparr> \<and>
   gp_neg \<in> set sample_table \<and>
   (\<exists>c. cell (heatmap_df sample_table) ''1.2'' ''negative'' = Some c \<and> 1 \<le> c) \<and>
   cell (heatmap_df sample_table) ''1.2'' ''positive'' = Some 0"
proof -
  have hm: "heatmap_df sample_table =
     \<lparr>hm_index = [''1.10'', ''1.2''], hm_columns = [''negative'', ''positive''],
      hm_values = [[0, 1], [1, 0]]\<rparr>"
    by code_simp
  have idx: "''1.2'' \<in> set (hm_index (heatmap_df sample_table))"
    and col: "''positive'' \<in> set (hm_columns (heatmap_df sample_table))"
    unfolding hm by simp_all
  from heatmap_df_cells [of sample_table]
  have absent: "\<forall>v \<in> set (hm_index (heatmap_df sample_table)).
      \<forall>l \<in> set (hm_columns (heatmap_df sample_table)).
      (\<forall>r \<in> set sample_table. \<not> (reviewCreatedVersion r = Some v \<and> sentiment_label r = l)) \<longrightarrow>
      cell (heatmap_df sample_table) v l = Some 0"
    and observed: "\<forall>r \<in> set sample_table. \<forall>v. reviewCreatedVersion r = Some v \<longrightarrow>
      (\<exists>c. cell (heatmap_df sample_table) v (sentiment_label r) = Some c \<and> 1 \<le> c)"
    by blast+
  from observed have one: "\<exists>c. cell (heatmap_df sample_table) ''1.2'' ''negative'' = Some c \<and> 1 \<le> c"
    by simp
  from absent idx col have zero: "cell (heatmap_df sample_table) ''1.2'' ''positive'' = Some 0"
    by simp
  from hm one zero show ?thesis
    by simp
qed

section \<open>Runs of the script\<close>

text \<open>
  C8. When the data file is absent, the run renders the title, the introduction and the
  error message, and stops there: the page holds no chart, no frame was allocated (the
  table was not loaded and nothing was filtered), and \<^verbatim>\<open>df\<close> and \<^verbatim>\<open>filtered_df\<close> were
  never bound. This holds for every selection in the sidebar and every file content.
\<close>

theorem missing_file_stops:
  "\<not> data_exists e \<Longrightarrow>
     status (script parse e ses) = Stopped \<and>
     page (script parse e ses) =
       [Title '' Smart Fintech Sentiment Explorer'',
        Markdown ''Gain insights from app store reviews for major fintech platforms.'',
        ErrorMsg ''Data file not found. Please run sentiment analysis script first.''] \<and>
     (\<forall>fig. PlotlyChart fig \<notin> set (page (script parse e ses))) \<and>
     heap (script parse e ses) = [] \<and>
     var_df (script parse e ses) = None \<and>
     var_filtered_df (script parse e ses) = None"
  by (simp add: script_def banner_def)

theorem missing_file_stops_witness:
  "\<not> data_exists \<lparr>data_exists = False, data_csv = sample_table\<rparr> \<and>
   status (script sample_parse \<lparr>data_exists = False, data_csv = sample_table\<rparr>
      \<lparr>selected_app = ''Google Pay'', selected_version = ''All'',
       chart_choice = ''All Visualizations'', question = ''negative google pay''\<rparr>) = Stopped \<and>
   heap (script sample_parse \<lparr>data_exists = False, data_csv = sample_table\<rparr>
      \<lparr>selected_app = ''Google Pay'', selected_version = ''All'',
       chart_choice = ''All Visualizations'', question = ''negative google pay''\<rparr>) = [] \<and>
   page (script sample_parse \<lparr>data_exists = False, data_csv = sample_table\<rparr>
      \<lparr>selected_app = ''Google Pay'', selected_version = ''All'',
       chart_choice = ''All Visualizations'', question = ''negative google pay''\<rparr>) =
     [Title '' Smart Fintech Sentiment Explorer'',
      Markdown ''Gain insights from app store reviews for major fintech platforms.'',
      ErrorMsg ''Data file not found. Please run sentiment analysis script first.'']"
  using missing_file_stops [of "\<lparr>data_exists = False, data_csv = sample_table\<rparr>" sample_parse
      "\<lparr>selected_app = ''Google Pay'', selected_version = ''All'',
        chart_choice = ''All Visualizations'', question = ''negative google pay''\<rparr>"]
  by simp

text \<open>
  With the file present, \<^verbatim>\<open>df\<close> is the first frame allocated and still holds the table
  read from the file when the run ends, however it ends. \<^verbatim>\<open>filtered_df\<close> refers to
  another frame, and when the conversion of line 73 succeeds that frame is the filtered
  view with its \<^verbatim>\<open>at\<close> column replaced.
\<close>

lemma script_heap:
  assumes "data_exists e"
  shows "var_df (script parse e ses) = Some 0 \<and>
         0 < length (heap (script parse e ses)) \<and>
         heap (script parse e ses) ! 0 = data_csv e \<and>
         (\<exists>b. var_filtered_df (script parse e ses) = Some b \<and> b \<noteq> 0 \<and>
              b < length (heap (script parse e ses)) \<and>
              (\<forall>ts. to_datetime parse
                       (map at (filtered_df (data_csv e) (selected_app ses) (selected_version ses))) = Inr ts \<longrightarrow>
                 heap (script parse e ses) ! b =
                   assign_at (filtered_df (data_csv e) (selected_app ses) (selected_version ses)) ts))"
proof (cases "selected_version ses = ''All''")
  case True
  with assms show ?thesis
    by (simp add: script_def alloc_def load_data_def filtered_df_def Let_def
             split: sum.splits prod.splits option.splits)
next
  case False
  with assms show ?thesis
    by (simp add: script_def alloc_def load_data_def filtered_df_def Let_def
             split: sum.splits prod.splits option.splits)
qed

text \<open>
  C9. In every run that loads the table, the frame \<^verbatim>\<open>df\<close> refers to holds, at the end
  of the run, exactly the table that was loaded: filtering allocated other frames, and the
  assignment to the \<^verbatim>\<open>at\<close> column went to the frame of \<^verbatim>\<open>filtered_df\<close>, which is not
  the frame of \<^verbatim>\<open>df\<close>.
\<close>

theorem filtering_keeps_df:
  "data_exists e \<Longrightarrow>
     (\<exists>a b. var_df (script parse e ses) = Some a \<and>
            var_filtered_df (script parse e ses) = Some b \<and>
            a \<noteq> b \<and>
            a < length (heap (script parse e ses)) \<and>
            b < length (heap (script parse e ses)) \<and>
            heap (script parse e ses) ! a = data_csv e \<and>
            (\<forall>ts. to_datetime parse
                     (map at (filtered_df (data_csv e) (selected_app ses) (selected_version ses))) = Inr ts \<longrightarrow>
               heap (script parse e ses) ! b =
                 assign_at (filtered_df (data_csv e) (selected_app ses) (selected_version ses)) ts))"
  using script_heap [of e parse ses] by (metis (no_types, lifting))

text \<open>
  A run on the sample table with Google Pay and version 1.2 selected: the conversion
  rewrites the \<^verbatim>\<open>at\<close> cell of the filtered frame, and the frame of \<^verbatim>\<open>df\<close> keeps its
  text cells.
\<close>

theorem filtering_keeps_df_witness:
  "data_exists \<lparr>data_exists = True, data_csv = sample_table\<rparr> \<and>
   status (script sample_parse \<lparr>data_exists = True, data_csv = sample_table\<rparr>
      \<lparr>selected_app = ''Google Pay'', selected_version = ''1.2'',
       chart_choice = ''Line Chart'', question = []\<rparr>) = Finished \<and>
   (\<exists>a b. var_df (script sample_parse \<lparr>data_exists = True, data_csv = sample_table\<rparr>
              \<lparr>selected_app = ''Google Pay'', selected_version = ''1.2'',
               chart_choice = ''Line Chart'', question = []\<rparr>) = Some a \<and>
          var_filtered_df (script sample_parse \<lparr>data_exists = True, data_csv = sample_table\<rparr>
              \<lparr>selected_app = ''Google Pay'', selected_version = ''1.2'',
               chart_choice = ''Line Chart'', question = []\<rparr>) = Some b \<and>
          a \<noteq> b \<and>
          heap (script sample_parse \<lparr>data_exists = True, data_csv = sample_table\<rparr>
              \<lparr>selected_app = ''Google Pay'', selected_version = ''1.2'',
               chart_choice = ''Line Chart'', question = []\<rparr>) ! a = sample_table \<and>
          heap (script sample_parse \<lparr>data_exists = True, data_csv = sample_table\<rparr>
              \<lparr>selected_app = ''Google Pay'', selected_version = ''1.2'',
               chart_choice = ''Line Chart'', question = []\<rparr>) ! b = [gp_neg\<lparr>at := AtTime jan5\<rparr>])"
proof -
  let ?e = "\<lparr>data_exists = True, data_csv = sample_table\<rparr>"
  let ?s = "\<lparr>selected_app = ''Google Pay'', selected_version = ''1.2'',
             chart_choice = ''Line Chart'', question = []\<rparr>"
  have ex: "data_exists ?e"
    by simp
  have fin: "status (script sample_parse ?e ?s) = Finished"
    by code_simp
  have conv: "to_datetime sample_parse (map at (filtered_df sample_table ''Google Pay'' ''1.2'')) = Inr [jan5]"
    by code_simp
  have view: "assign_at (filtered_df sample_table ''Google Pay'' ''1.2'') [jan5] = [gp_neg\<lparr>at := AtTime jan5\<rparr>]"
    by code_simp
  from filtering_keeps_df [OF ex, of sample_parse ?s] obtain a b where
    a: "var_df (script sample_parse ?e ?s) = Some a" and
    b: "var_filtered_df (script sample_parse ?e ?s) = Some b" and
    ab: "a \<noteq> b" and
    keep: "heap (script sample_parse ?e ?s) ! a = data_csv ?e" and
    upd: "\<forall>ts. to_datetime sample_parse
                  (map at (filtered_df (data_csv ?e) (selected_app ?s) (selected_version ?s))) = Inr ts \<longrightarrow>
               heap (script sample_parse ?e ?s) ! b =
                 assign_at (filtered_df (data_csv ?e) (selected_app ?s) (selected_version ?s)) ts"
    by blast
  from upd conv view have "heap (script sample_parse ?e ?s) ! b = [gp_neg\<lparr>at := AtTime jan5\<rparr>]"
    by simp
  moreover from keep have "heap (script sample_parse ?e ?s) ! a = sample_table"
    by simp
  ultimately show ?thesis
    using ex fin a b ab by blast
qed

text \<open>
  When the parser accepts every timestamp of the filtered view, no exception ends the run:
  the script reaches its last line.
\<close>

lemma charts_converted:
  "length ts = length view \<Longrightarrow> snd (charts c a sdf (assign_at view ts)) = None"
  by (simp add: charts_def daily_counts_def at_assign_at dt_date_AtTime)

lemma charts_converted_pair:
  "length ts = length view \<Longrightarrow> charts c a sdf (assign_at view ts) = (evs, err) \<Longrightarrow> err = None"
  using charts_converted [of ts view c a sdf] by simp

lemma script_finishes:
  assumes "data_exists e"
    and "to_datetime parse
           (map at (filtered_df (data_csv e) (selected_app ses) (selected_version ses))) = Inr ts"
  shows "status (script parse e ses) = Finished"
proof -
  from assms(2) have len:
    "length ts = length (filtered_df (data_csv e) (selected_app ses) (selected_version ses))"
    using to_datetime_length by fastforce
  show ?thesis
  proof (cases "selected_version ses = ''All''")
    case True
    with assms len show ?thesis
      by (auto simp: script_def alloc_def load_data_def filtered_df_def Let_def
               dest: charts_converted_pair
               split: sum.splits prod.splits option.splits)
  next
    case False
    with assms len show ?thesis
      by (auto simp: script_def alloc_def load_data_def filtered_df_def Let_def
               dest: charts_converted_pair
               split: sum.splits prod.splits option.splits)
  qed
qed

lemma answer_shown_skip: "(\<forall>s. e \<noteq> Subheader s) \<Longrightarrow> answer_shown (e # es) = answer_shown es"
  by (cases es; cases e) simp_all

lemma answer_shown_prefix:
  "(\<forall>s. Subheader s \<notin> set pre) \<Longrightarrow> answer_shown (pre @ rest) = answer_shown rest"
proof (induction pre)
  case Nil
  then show ?case by simp
next
  case (Cons e pre)
  then have "\<forall>s. e \<noteq> Subheader s" by auto
  then have "answer_shown (e # pre @ rest) = answer_shown (pre @ rest)"
    by (rule answer_shown_skip)
  with Cons show ?case by simp
qed

lemma answer_shown_none: "Subheader answer_heading \<notin> set evs \<Longrightarrow> answer_shown evs = None"
  by (induction evs rule: answer_shown.induct) auto

lemma charts_no_answer: "Subheader answer_heading \<notin> set (fst (charts c a sdf v))"
  by (simp add: charts_def answer_heading_def split: sum.splits)

lemma charts_no_answer_pair:
  "charts c a sdf v = (evs, err) \<Longrightarrow> Subheader answer_heading \<notin> set evs"
  using charts_no_answer [of c a sdf v] by simp

lemma footer_no_answer: "Subheader answer_heading \<notin> set footer"
  by (simp add: footer_def)

text \<open>
  The page of a run that loads the table: the banner, the sidebar, the answer block
  computed from the whole table, and a rest that has no answer heading.
\<close>

lemma script_page:
  assumes "data_exists e"
  shows "\<exists>rest. page (script parse e ses) =
           (banner @ sidebar (app_names (data_csv e))
                       (versions (filter_app (data_csv e) (selected_app ses))))
             @ qna_block (data_csv e) (question ses) @ rest \<and>
           Subheader answer_heading \<notin> set rest"
proof (cases "selected_version ses = ''All''")
  case True
  with assms footer_no_answer show ?thesis
    by (auto simp: script_def alloc_def load_data_def Let_def
             dest: charts_no_answer_pair
             split: sum.splits prod.splits option.splits)
next
  case False
  with assms footer_no_answer show ?thesis
    by (auto simp: script_def alloc_def load_data_def Let_def
             dest: charts_no_answer_pair
             split: sum.splits prod.splits option.splits)
qed

lemma script_answer_shown:
  "answer_shown (page (script parse e ses)) =
     (if data_exists e \<and> question ses \<noteq> [] then Some (answer (data_csv e) (question ses)) else None)"
proof (cases "data_exists e")
  case False
  then show ?thesis
    by (simp add: script_def banner_def)
next
  case True
  from script_page [OF True, of parse ses] obtain rest where
    pg: "page (script parse e ses) =
           (banner @ sidebar (app_names (data_csv e))
                       (versions (filter_app (data_csv e) (selected_app ses))))
             @ qna_block (data_csv e) (question ses) @ rest"
    and rest: "Subheader answer_heading \<notin> set rest"
    by blast
  have pre: "\<forall>s. Subheader s \<notin> set (banner @ sidebar (app_names (data_csv e))
                (versions (filter_app (data_csv e) (selected_app ses))))"
    by (simp add: banner_def sidebar_def)
  have "answer_shown (page (script parse e ses)) =
          answer_shown (qna_block (data_csv e) (question ses) @ rest)"
    unfolding pg using pre by (rule answer_shown_prefix)
  also have "\<dots> = (if question ses \<noteq> [] then Some (answer (data_csv e) (question ses)) else None)"
    using answer_shown_none [OF rest] by (simp add: qna_block_def)
  finally show ?thesis
    using True by simp
qed

text \<open>
  C10. Two runs in the same environment whose sessions have the same question show the
  same answer, whatever app, version and chart each has selected. When the table is loaded
  and the question is not empty, the answer shown is \<open>answer\<close> applied to the whole loaded
  table and the question: the count is over the unfiltered table.
\<close>

theorem answer_independent_of_selection:
  "question s1 = question s2 \<Longrightarrow>
     answer_shown (page (script parse e s1)) = answer_shown (page (script parse e s2)) \<and>
     (data_exists e \<and> question s1 \<noteq> [] \<longrightarrow>
        answer_shown (page (script parse e s1)) = Some (answer (data_csv e) (question s1)))"
  by (simp add: script_answer_shown)

text \<open>
  Two runs on the sample table with the same question: one with Google Pay selected, one
  with PhonePe, whose filtered view has no Google Pay row. Both show the count 1.
\<close>

theorem answer_independent_of_selection_witness:
  "question \<lparr>selected_app = ''Google Pay'', selected_version = ''1.2'',
             chart_choice = ''Heatmap'', question = ''negative Google Pay?''\<rparr> =
   question \<lparr>selected_app = ''PhonePe'', selected_version = ''All'',
             chart_choice = ''Pie Chart'', question = ''negative Google Pay?''\<rparr> \<and>
   answer_shown (page (script sample_parse \<lparr>data_exists = True, data_csv = sample_table\<rparr>
      \<lparr>selected_app = ''Google Pay'', selected_version = ''1.2'',
       chart_choice = ''Heatmap'', question = ''negative Google Pay?''\<rparr>)) =
     Some '' **Google Pay has 1 negative reviews**.'' \<and>
   answer_shown (page (script sample_parse \<lparr>data_exists = True, data_csv = sample_table\<rparr>
      \<lparr>selected_app = ''PhonePe'', selected_version = ''All'',
       chart_choice = ''Pie Chart'', question = ''negative Google Pay?''\<rparr>)) =
     Some '' **Google Pay has 1 negative reviews**.''"
proof -
  let ?e = "\<lparr>data_exists = True, data_csv = sample_table\<rparr>"
  let ?s1 = "\<lparr>selected_app = ''Google Pay'', selected_version = ''1.2'',
              chart_choice = ''Heatmap'', question = ''negative Google Pay?''\<rparr>"
  let ?s2 = "\<lparr>selected_app = ''PhonePe'', selected_version = ''All'',
              chart_choice = ''Pie Chart'', question = ''negative Google Pay?''\<rparr>"
  have q: "question ?s1 = question ?s2"
    by simp
  have asked: "data_exists ?e \<and> question ?s1 \<noteq> []"
    by simp
  have ans: "answer (data_csv ?e) (question ?s1) = '' **Google Pay has 1 negative reviews**.''"
    by code_simp
  note both = answer_independent_of_selection [OF q, of sample_parse ?e]
  from both have same: "answer_shown (page (script sample_parse ?e ?s1)) =
              answer_shown (page (script sample_parse ?e ?s2))"
    by (rule conjunct1)
  from both asked have shown: "answer_shown (page (script sample_parse ?e ?s1)) =
              Some (answer (data_csv ?e) (question ?s1))"
    by blast
  have one: "answer_shown (page (script sample_parse ?e ?s1)) =
      Some '' **Google Pay has 1 negative reviews**.''"
    by (simp only: shown ans)
  have two: "answer_shown (page (script sample_parse ?e ?s2)) =
      Some '' **Google Pay has 1 negative reviews**.''"
    by (simp only: same [symmetric] one)
  from q one two show ?thesis
    by blast
qed

end
